theory Spec2Isabelle
  imports Complex_Main
begin

section \<open>PaperLens: the ranking core of \<open>Pipeline.Run\<close> (Sources/Pipeline.py)\<close>

text \<open>
  The development follows \<open>Pipeline.Run\<close> from the point where the profile texts
  (\<open>personasTexts\<close>) and the aggregated raw records (\<open>rawDataset\<close>) are at hand:
  profile vectorisation (lines 60-65), candidate filtering (lines 71-82) and similarity
  ranking (lines 84-95). The HTTP call, the renderer and the mailer are effects outside
  this slice.

  Arithmetic is over \<open>real\<close>: NumPy computes in float32, so every statement about a
  computed number is a statement about the exact value, not about its rounding.
\<close>

subsection \<open>Python values\<close>

text \<open>
  A Python \<open>str\<close> is a sequence of Unicode code points. The source formats text with
  CJK literals and trims with \<open>str.strip()\<close>, which knows the Unicode white space, so
  a string is a list of code points here rather than a list of bytes.
\<close>

type_synonym pystr = "nat list"

text \<open>
  The values a record can hold: \<open>None\<close>, a \<open>str\<close>, a \<open>float\<close>, or any other object.
  Of another object only two things are ever observed by \<open>Run\<close>: its truth value
  (in \<open>x or ""\<close>) and its \<open>str()\<close> rendering (in an f-string); it has no \<open>strip\<close>
  method.
\<close>

datatype pyval = PNone | PStr pystr | PFloat real | PObj bool pystr

text \<open>A \<open>dict\<close> keeps insertion order: an association list, read through \<open>map_of\<close>.\<close>

type_synonym pydict = "(string \<times> pyval) list"

datatype error = AttributeError | ValueError | IndexError

fun truthy :: "pyval \<Rightarrow> bool" where
  "truthy PNone = False"
| "truthy (PStr s) = (s \<noteq> [])"
| "truthy (PFloat r) = (r \<noteq> 0)"
| "truthy (PObj b s) = b"

definition py_or :: "pyval \<Rightarrow> pyval \<Rightarrow> pyval" where
  \<comment> \<open>\<open>a or b\<close>\<close>
  "py_or a b = (if truthy a then a else b)"

definition dict_get :: "pydict \<Rightarrow> string \<Rightarrow> pyval \<Rightarrow> pyval" where
  \<comment> \<open>\<open>d.get(k, dflt)\<close>\<close>
  "dict_get d k dflt = (case map_of d k of None \<Rightarrow> dflt | Some v \<Rightarrow> v)"

fun dict_set :: "pydict \<Rightarrow> string \<Rightarrow> pyval \<Rightarrow> pydict" where
  \<comment> \<open>\<open>d[k] = v\<close>: an existing key keeps its position, a new key goes last\<close>
  "dict_set [] k v = [(k, v)]"
| "dict_set ((k', v') # d) k v =
     (if k' = k then (k, v) # d else (k', v') # dict_set d k v)"

definition dict_setdefault :: "pydict \<Rightarrow> string \<Rightarrow> pyval \<Rightarrow> pydict" where
  \<comment> \<open>\<open>d.setdefault(k, v)\<close>, for its effect on \<open>d\<close>\<close>
  "dict_setdefault d k v = (case map_of d k of None \<Rightarrow> dict_set d k v | Some _ \<Rightarrow> d)"

subsection \<open>Strings: \<open>strip\<close>, \<open>str(int)\<close>, the f-string of line 82\<close>

definition isspace :: "nat \<Rightarrow> bool" where
  \<comment> \<open>the code points CPython treats as white space\<close>
  "isspace c \<longleftrightarrow>
     (9 \<le> c \<and> c \<le> 13) \<or> (28 \<le> c \<and> c \<le> 32) \<or> c = 133 \<or> c = 160 \<or> c = 5760 \<or>
     (8192 \<le> c \<and> c \<le> 8202) \<or> c = 8232 \<or> c = 8233 \<or> c = 8239 \<or> c = 8287 \<or> c = 12288"

definition strip :: "pystr \<Rightarrow> pystr" where
  "strip s = rev (dropWhile isspace (rev (dropWhile isspace s)))"

fun py_strip :: "pyval \<Rightarrow> error + pystr" where
  \<comment> \<open>\<open>x.strip()\<close>: only a \<open>str\<close> has the method\<close>
  "py_strip (PStr s) = Inr (strip s)"
| "py_strip PNone = Inl AttributeError"
| "py_strip (PFloat r) = Inl AttributeError"
| "py_strip (PObj b s) = Inl AttributeError"

fun str_nat :: "nat \<Rightarrow> pystr" where
  \<comment> \<open>\<open>str(n)\<close> for a non-negative \<open>int\<close>: decimal digits, most significant first\<close>
  "str_nat n = (if n < 10 then [48 + n] else str_nat (n div 10) @ [48 + n mod 10])"

declare str_nat.simps [simp del]

subsection \<open>The collaborators\<close>

text \<open>
  What \<open>Run\<close> reaches through \<open>self\<close> and through NumPy and is not in the source file:
  the embedder (\<open>Encode\<close>, \<open>dimensions\<close>), the configured \<open>TOP_K\<close>, \<open>np.argsort\<close>,
  and the rendering of a \<open>float\<close> in an f-string. A 2-D array is the list of its rows.
\<close>

record runtime =
  Encode :: "pystr list \<Rightarrow> real list list"
  dimensions :: nat
  TOP_K :: int
  argsort :: "real list \<Rightarrow> nat list"
  float_str :: "real \<Rightarrow> pystr"

fun py_format :: "runtime \<Rightarrow> pyval \<Rightarrow> pystr" where
  \<comment> \<open>\<open>{x}\<close> inside an f-string\<close>
  "py_format rt (PStr s) = s"
| "py_format rt PNone = [78, 111, 110, 101]"
| "py_format rt (PFloat r) = float_str rt r"
| "py_format rt (PObj b s) = s"

definition paper_text :: "runtime \<Rightarrow> nat \<Rightarrow> pyval \<Rightarrow> pyval \<Rightarrow> pystr" where
  \<comment> \<open>line 82: a header with the display index, then the title and the abstract\<close>
  "paper_text rt totalPapers title abstractNote =
     [35, 35, 32, 35770, 25991, 32] @ str_nat totalPapers @
     [10, 45, 32, 26631, 39064, 65306] @ py_format rt title @
     [10, 45, 32, 25688, 35201, 65306] @ py_format rt abstractNote"

subsection \<open>Candidate filter (lines 71-82)\<close>

definition both_blank :: "pyval \<Rightarrow> pyval \<Rightarrow> error + bool" where
  \<comment> \<open>line 77; \<open>and\<close> does not evaluate its right side when the left is false\<close>
  "both_blank title abstractNote =
     (case py_strip title of
        Inl e \<Rightarrow> Inl e
      | Inr t \<Rightarrow>
          if t = [] then
            (case py_strip abstractNote of Inl e \<Rightarrow> Inl e | Inr a \<Rightarrow> Inr (a = []))
          else Inr False)"

type_synonym filter_state = "nat \<times> pystr list \<times> pydict list"

fun filter_step :: "runtime \<Rightarrow> pydict \<Rightarrow> filter_state \<Rightarrow> error + filter_state" where
  \<comment> \<open>the loop body; the state is \<open>(totalPapers, paperTexts, paperCandidates)\<close>\<close>
  "filter_step rt rawPaper (totalPapers, paperTexts, paperCandidates) =
     (let title = py_or (dict_get rawPaper ''title'' (PStr [])) (PStr []);
          abstractNote = py_or (dict_get rawPaper ''abstract'' (PStr [])) (PStr [])
      in (case both_blank title abstractNote of
            Inl e \<Rightarrow> Inl e
          | Inr True \<Rightarrow> Inr (totalPapers, paperTexts, paperCandidates)
          | Inr False \<Rightarrow>
              Inr (totalPapers + 1,
                   paperTexts @ [paper_text rt (totalPapers + 1) title abstractNote],
                   paperCandidates @ [rawPaper])))"

declare filter_step.simps [simp del]

fun filter_loop :: "runtime \<Rightarrow> pydict list \<Rightarrow> filter_state \<Rightarrow> error + filter_state" where
  "filter_loop rt [] st = Inr st"
| "filter_loop rt (rawPaper # rest) st =
     (case filter_step rt rawPaper st of
        Inl e \<Rightarrow> Inl e
      | Inr st' \<Rightarrow> filter_loop rt rest st')"

definition candidate_filter :: "runtime \<Rightarrow> pydict list \<Rightarrow> error + filter_state" where
  "candidate_filter rt rawDataset = filter_loop rt rawDataset (0, [], [])"

subsection \<open>Profile vectoriser (lines 60-65)\<close>

definition arr_size :: "real list list \<Rightarrow> nat" where
  \<comment> \<open>\<open>a.size\<close>: the number of elements\<close>
  "arr_size a = sum_list (map length a)"

definition mean_axis0 :: "real list list \<Rightarrow> real list" where
  \<comment> \<open>\<open>a.mean(axis = 0, keepdims = True)\<close>, as the one row it has; \<open>a\<close> is non-empty there\<close>
  "mean_axis0 a =
     map (\<lambda>j. sum_list (map (\<lambda>row. row ! j) a) / real (length a)) [0..<length (hd a)]"

definition linalg_norm :: "real list \<Rightarrow> real" where
  "linalg_norm v = sqrt (sum_list (map (\<lambda>x. x * x) v))"

definition persona_vector :: "runtime \<Rightarrow> pystr list \<Rightarrow> real list" where
  "persona_vector rt personasTexts =
     (let embeddings = Encode rt personasTexts in
      if arr_size embeddings = 0 then replicate (dimensions rt) 0
      else
        let personasVecs = mean_axis0 embeddings
        in map (\<lambda>x. x / (linalg_norm personasVecs + 1 / 1000000000)) personasVecs)"

subsection \<open>Similarity ranker (lines 84-95)\<close>

definition dot :: "real list \<Rightarrow> real list \<Rightarrow> real" where
  "dot u v = sum_list (map2 (*) u v)"

definition matmul_T :: "real list list \<Rightarrow> real list \<Rightarrow> error + real list" where
  \<comment> \<open>\<open>(a @ p.T).ravel()\<close> for \<open>a\<close> of shape (N, D) and \<open>p\<close> of shape (1, D'):
      NumPy raises \<open>ValueError\<close> unless D = D'\<close>
  "matmul_T a p =
     (if list_all (\<lambda>row. length row = length p) a then Inr (map (\<lambda>row. dot row p) a)
      else Inl ValueError)"

definition slice_to :: "int \<Rightarrow> 'a list \<Rightarrow> 'a list" where
  \<comment> \<open>\<open>xs[:k]\<close>; a negative \<open>k\<close> counts from the end\<close>
  "slice_to k xs = (if 0 \<le> k then take (nat k) xs else take (length xs - nat (- k)) xs)"

definition recommend :: "pydict \<Rightarrow> real \<Rightarrow> pydict" where
  \<comment> \<open>lines 92-94, on the copy \<open>{**candidate}\<close>\<close>
  "recommend candidate s =
     (let paper = dict_set candidate ''Similarity'' (PFloat s)
      in dict_setdefault paper ''abstract'' (dict_get paper ''abstract'' (PStr [])))"

fun recommend_loop ::
  "pydict list \<Rightarrow> real list \<Rightarrow> nat list \<Rightarrow> pydict list \<Rightarrow> error + pydict list" where
  "recommend_loop paperCandidates paperSimilarity [] paperRecommendations =
     Inr paperRecommendations"
| "recommend_loop paperCandidates paperSimilarity (index # rest) paperRecommendations =
     (if index < length paperCandidates \<and> index < length paperSimilarity then
        recommend_loop paperCandidates paperSimilarity rest
          (paperRecommendations @
             [recommend (paperCandidates ! index) (paperSimilarity ! index)])
      else Inl IndexError)"

definition similarity :: "runtime \<Rightarrow> pystr list \<Rightarrow> real list \<Rightarrow> error + real list" where
  \<comment> \<open>lines 84 and 88\<close>
  "similarity rt paperTexts personasVecs =
     (let embeddings = Encode rt paperTexts in
      if arr_size embeddings \<noteq> 0 then matmul_T embeddings personasVecs else Inr [])"

definition rank_order :: "runtime \<Rightarrow> real list \<Rightarrow> nat list" where
  \<comment> \<open>line 89: \<open>np.argsort(paperSimilarity)[::-1][:TOP_K]\<close>\<close>
  "rank_order rt paperSimilarity = slice_to (TOP_K rt) (rev (argsort rt paperSimilarity))"

definition rank ::
  "runtime \<Rightarrow> pystr list \<Rightarrow> pydict list \<Rightarrow> real list \<Rightarrow> error + pydict list" where
  "rank rt paperTexts paperCandidates personasVecs =
     (case similarity rt paperTexts personasVecs of
        Inl e \<Rightarrow> Inl e
      | Inr paperSimilarity \<Rightarrow>
          recommend_loop paperCandidates paperSimilarity (rank_order rt paperSimilarity) [])"

definition Run :: "runtime \<Rightarrow> pystr list \<Rightarrow> pydict list \<Rightarrow> error + pydict list" where
  \<comment> \<open>steps 2 to 4 of \<open>Pipeline.Run\<close>: the value of \<open>paperRecommendations\<close>\<close>
  "Run rt personasTexts rawDataset =
     (let personasVecs = persona_vector rt personasTexts in
      case candidate_filter rt rawDataset of
        Inl e \<Rightarrow> Inl e
      | Inr (totalPapers, paperTexts, paperCandidates) \<Rightarrow>
          rank rt paperTexts paperCandidates personasVecs)"

subsection \<open>The aggregator\<close>

text \<open>
  Modelled from the spec: the Aggregator (\<open>Sources/FetchPaper/Aggregator.py\<close>, of which
  \<open>Run\<close> only calls \<open>fetch_all\<close>) is not among the source files. Section 4.2 of the
  specification: each fetcher returns a sequence of raw records for the date range, and the
  Aggregator concatenates all fetcher outputs into one sequence, in the order of the
  configured fetcher list, without deduplication. A fetcher is a function of the day, the
  next day and the per-source options.
\<close>

definition fetch_all :: "('d \<Rightarrow> 'd \<Rightarrow> 'o \<Rightarrow> 'a list) list \<Rightarrow> 'd \<Rightarrow> 'd \<Rightarrow> 'o \<Rightarrow> 'a list" where
  "fetch_all fetchers day nextDay opts = concat (map (\<lambda>fetch. fetch day nextDay opts) fetchers)"

subsection \<open>Vocabulary of the properties\<close>

text \<open>
  The embedder's contract (specification, section 6): \<open>Encode\<close> maps \<open>N\<close> texts to an
  array of shape \<open>(N, D)\<close>, \<open>D\<close> being its \<open>dimensions\<close>.
\<close>

definition embedder_ok :: "runtime \<Rightarrow> bool" where
  "embedder_ok rt \<longleftrightarrow>
     (\<forall>texts. length (Encode rt texts) = length texts \<and>
              (\<forall>row\<in>set (Encode rt texts). length row = dimensions rt))"

text \<open>
  NumPy's contract for \<open>argsort\<close>: a permutation of the indices that lists the values in
  ascending order. The default sort kind promises nothing about the order of equal values.
\<close>

definition argsort_ok :: "runtime \<Rightarrow> bool" where
  "argsort_ok rt \<longleftrightarrow>
     (\<forall>xs. length (argsort rt xs) = length xs \<and>
           set (argsort rt xs) = {..<length xs} \<and>
           sorted (map (\<lambda>i. xs ! i) (argsort rt xs)))"

definition similarity_of :: "pydict \<Rightarrow> real option" where
  \<comment> \<open>the \<open>Similarity\<close> field of a recommendation, when it is a float\<close>
  "similarity_of r =
     (case map_of r ''Similarity'' of Some (PFloat x) \<Rightarrow> Some x | _ \<Rightarrow> None)"

definition field_text :: "pydict \<Rightarrow> string \<Rightarrow> pystr" where
  \<comment> \<open>a text field, an absent one or \<open>None\<close> read as the empty string\<close>
  "field_text p k = (case map_of p k of Some (PStr s) \<Rightarrow> s | _ \<Rightarrow> [])"

definition blank :: "pydict \<Rightarrow> bool" where
  \<comment> \<open>title and abstract are both empty or white space only\<close>
  "blank p \<longleftrightarrow>
     strip (field_text p ''title'') = [] \<and> strip (field_text p ''abstract'') = []"

fun str_or_none :: "pyval option \<Rightarrow> bool" where
  "str_or_none None = True"
| "str_or_none (Some PNone) = True"
| "str_or_none (Some (PStr s)) = True"
| "str_or_none (Some (PFloat r)) = False"
| "str_or_none (Some (PObj b s)) = False"

definition well_typed :: "pydict \<Rightarrow> bool" where
  \<comment> \<open>the fetchers' contract: \<open>title\<close> and \<open>abstract\<close> are optional strings\<close>
  "well_typed p \<longleftrightarrow>
     str_or_none (map_of p ''title'') \<and> str_or_none (map_of p ''abstract'')"

definition display_text :: "runtime \<Rightarrow> nat \<Rightarrow> pydict \<Rightarrow> pystr" where
  "display_text rt i p =
     paper_text rt i (PStr (field_text p ''title'')) (PStr (field_text p ''abstract''))"

subsection \<open>A concrete runtime\<close>

text \<open>
  A stable ascending index sort, one of the sorts that NumPy's contract for \<open>argsort\<close>
  admits, and two small embedders of dimension 2.
\<close>

definition argsort_stable :: "real list \<Rightarrow> nat list" where
  "argsort_stable xs = map snd (sort_key fst (zip xs [0..<length xs]))"

definition length_embedder :: "pystr list \<Rightarrow> real list list" where
  "length_embedder texts = map (\<lambda>t. [real (length t), 1]) texts"

definition parity_embedder :: "pystr list \<Rightarrow> real list list" where
  \<comment> \<open>unit vectors: \<open>e\<^sub>1\<close> for a text of even length, \<open>- e\<^sub>1\<close> otherwise\<close>
  "parity_embedder texts = map (\<lambda>t. if even (length t) then [1, 0] else [- 1, 0]) texts"

definition no_float_str :: "real \<Rightarrow> pystr" where
  "no_float_str r = []"

definition demo_rt :: runtime where
  "demo_rt = \<lparr>Encode = length_embedder, dimensions = 2, TOP_K = 2,
              argsort = argsort_stable, float_str = no_float_str\<rparr>"

definition parity_rt :: runtime where
  "parity_rt = \<lparr>Encode = parity_embedder, dimensions = 2, TOP_K = 2,
                argsort = argsort_stable, float_str = no_float_str\<rparr>"

definition demo_texts :: "pystr list" where
  "demo_texts = [[1], [1, 2, 3], [1, 2]]"

definition demo_candidates :: "pydict list" where
  "demo_candidates =
     [[(''title'', PStr [65])], [(''title'', PStr [66])], [(''abstract'', PNone)]]"

definition demo_raw :: "pydict list" where
  \<comment> \<open>the scenario of the specification, section 8: C1, an empty record, C3\<close>
  "demo_raw =
     [[(''title'', PStr [67, 49]), (''abstract'', PStr [122])],
      [(''title'', PStr []), (''abstract'', PStr [])],
      [(''title'', PStr [67, 51]), (''abstract'', PStr [119])]]"

definition two_titles :: "pydict list" where
  \<comment> \<open>two records with a title only, as a source without abstracts returns them\<close>
  "two_titles = [[(''title'', PStr [65])], [(''title'', PStr [66])]]"

definition scored_candidate :: pydict where
  \<comment> \<open>a record that already has a field named \<open>Similarity\<close>, and no abstract\<close>
  "scored_candidate = [(''title'', PStr [65]), (''Similarity'', PStr [104, 105])]"

definition opposite_texts :: "pystr list" where
  \<comment> \<open>two profile texts that \<open>parity_embedder\<close> maps to \<open>- e\<^sub>1\<close> and \<open>e\<^sub>1\<close>\<close>
  "opposite_texts = [[65], [65, 66]]"

definition even_texts :: "pystr list" where
  \<comment> \<open>one profile text, which \<open>parity_embedder\<close> maps to \<open>e\<^sub>1\<close>\<close>
  "even_texts = [[65, 66]]"

fun absent_or_none :: "pyval option \<Rightarrow> bool" where
  "absent_or_none None = True"
| "absent_or_none (Some PNone) = True"
| "absent_or_none (Some (PStr s)) = False"
| "absent_or_none (Some (PFloat r)) = False"
| "absent_or_none (Some (PObj b s)) = False"

section \<open>Properties\<close>

subsection \<open>Dictionaries\<close>

lemma map_of_dict_set: "map_of (dict_set d k v) = (map_of d)(k \<mapsto> v)"
  by (induction d) auto

lemma map_of_dict_setdefault:
  "map_of (dict_setdefault d k v) =
     (case map_of d k of None \<Rightarrow> (map_of d)(k \<mapsto> v) | Some _ \<Rightarrow> map_of d)"
  by (simp add: dict_setdefault_def map_of_dict_set split: option.splits)

lemma map_of_recommend:
  "map_of (recommend c s) k =
     (if k = ''Similarity'' then Some (PFloat s)
      else if k = ''abstract'' then
        (case map_of c ''abstract'' of None \<Rightarrow> Some (PStr []) | Some v \<Rightarrow> Some v)
      else map_of c k)"
  by (simp add: recommend_def Let_def map_of_dict_setdefault map_of_dict_set dict_get_def
      split: option.splits)

lemma similarity_of_recommend: "similarity_of (recommend c s) = Some s"
  by (simp add: similarity_of_def map_of_recommend)

subsection \<open>The concrete runtime meets the contracts\<close>

lemma argsort_stable_length: "length (argsort_stable xs) = length xs"
  by (simp add: argsort_stable_def)

lemma argsort_stable_set: "set (argsort_stable xs) = {..<length xs}"
proof -
  have "map snd (zip xs [0..<length xs]) = [0..<length xs]"
    by simp
  then have "snd ` set (zip xs [0..<length xs]) = set [0..<length xs]"
    by (metis set_map)
  then show ?thesis
    by (simp add: argsort_stable_def atLeast0LessThan)
qed

lemma argsort_stable_sorted: "sorted (map (\<lambda>i. xs ! i) (argsort_stable xs))"
proof -
  let ?zs = "zip xs [0..<length xs]"
  have "\<forall>z\<in>set (sort_key fst ?zs). xs ! snd z = fst z"
    by (auto simp: set_zip)
  then have e1: "map (\<lambda>z. xs ! snd z) (sort_key fst ?zs) = map fst (sort_key fst ?zs)"
    by (intro map_cong) simp_all
  have s: "sorted (map fst (sort_key fst ?zs))"
    by simp
  have e2: "map (\<lambda>i. xs ! i) (argsort_stable xs) =
            map (\<lambda>z. xs ! snd z) (sort_key fst ?zs)"
    by (simp add: argsort_stable_def)
  show ?thesis
    by (simp only: e2 e1 s)
qed

lemma demo_argsort_ok: "argsort_ok demo_rt"
  by (simp add: argsort_ok_def demo_rt_def argsort_stable_length argsort_stable_set
      argsort_stable_sorted)

lemma demo_embedder_ok: "embedder_ok demo_rt"
  by (auto simp: embedder_ok_def demo_rt_def length_embedder_def)

lemma parity_argsort_ok: "argsort_ok parity_rt"
  by (simp add: argsort_ok_def parity_rt_def argsort_stable_length argsort_stable_set
      argsort_stable_sorted)

lemma parity_embedder_ok: "embedder_ok parity_rt"
  by (auto simp: embedder_ok_def parity_rt_def parity_embedder_def)

lemma demo_rt_fields:
  "dimensions demo_rt = 2" "TOP_K demo_rt = 2" "Encode demo_rt = length_embedder"
  "argsort demo_rt = argsort_stable"
  by (simp_all add: demo_rt_def)

lemma parity_rt_fields:
  "dimensions parity_rt = 2" "TOP_K parity_rt = 2" "Encode parity_rt = parity_embedder"
  "argsort parity_rt = argsort_stable"
  by (simp_all add: parity_rt_def)

subsection \<open>Candidate filter\<close>

lemma or_empty_typed:
  "str_or_none (map_of p k) \<Longrightarrow>
   py_or (dict_get p k (PStr [])) (PStr []) = PStr (field_text p k)"
  by (cases "map_of p k" rule: str_or_none.cases)
     (auto simp: py_or_def dict_get_def field_text_def)

lemma filter_step_typed:
  assumes "well_typed p"
  shows "filter_step rt p (n, texts, cands) =
           (if blank p then Inr (n, texts, cands)
            else Inr (Suc n, texts @ [display_text rt (Suc n) p], cands @ [p]))"
  using assms
  by (auto simp: filter_step.simps well_typed_def or_empty_typed both_blank_def blank_def
      display_text_def Let_def)

lemma filter_loop_typed:
  assumes "\<forall>p\<in>set raw. well_typed p"
  shows "filter_loop rt raw (n, texts, cands) =
           Inr (n + length (filter (\<lambda>p. \<not> blank p) raw),
                texts @ map (\<lambda>(i, p). display_text rt (Suc i) p)
                          (enumerate n (filter (\<lambda>p. \<not> blank p) raw)),
                cands @ filter (\<lambda>p. \<not> blank p) raw)"
  using assms
  by (induction raw arbitrary: n texts cands) (simp_all add: filter_step_typed)

text \<open>
  C4: on raw records whose title and abstract are optional strings, the candidate filter
  returns exactly the records that are not blank (title and abstract both empty or white
  space only after trimming), in their original order, together with their count and,
  for the \<open>i\<close>-th kept record (from 0), the text block carrying the display index \<open>i + 1\<close>.
\<close>

theorem candidate_filter_keeps_non_blank:
  assumes "\<forall>p\<in>set rawDataset. well_typed p"
  shows "candidate_filter rt rawDataset =
           Inr (length (filter (\<lambda>p. \<not> blank p) rawDataset),
                map (\<lambda>(i, p). display_text rt (Suc i) p)
                  (enumerate 0 (filter (\<lambda>p. \<not> blank p) rawDataset)),
                filter (\<lambda>p. \<not> blank p) rawDataset)"
  using filter_loop_typed [OF assms, of rt 0 "[]" "[]"]
  by (simp add: candidate_filter_def)

lemma str_nat_digit: "n < 10 \<Longrightarrow> str_nat n = [48 + n]"
  by (simp add: str_nat.simps)

lemma demo_raw_typed: "\<forall>p\<in>set demo_raw. well_typed p"
  by (simp add: demo_raw_def well_typed_def)

lemma demo_raw_kept:
  "filter (\<lambda>p. \<not> blank p) demo_raw =
     [[(''title'', PStr [67, 49]), (''abstract'', PStr [122])],
      [(''title'', PStr [67, 51]), (''abstract'', PStr [119])]]"
  by (simp add: demo_raw_def blank_def field_text_def strip_def isspace_def)

theorem candidate_filter_keeps_non_blank_witness:
  "list_all well_typed demo_raw \<and>
   candidate_filter demo_rt demo_raw =
     Inr (2,
          [[35, 35, 32, 35770, 25991, 32, 49, 10, 45, 32, 26631, 39064, 65306, 67, 49,
            10, 45, 32, 25688, 35201, 65306, 122],
           [35, 35, 32, 35770, 25991, 32, 50, 10, 45, 32, 26631, 39064, 65306, 67, 51,
            10, 45, 32, 25688, 35201, 65306, 119]],
          [[(''title'', PStr [67, 49]), (''abstract'', PStr [122])],
           [(''title'', PStr [67, 51]), (''abstract'', PStr [119])]])"
  using candidate_filter_keeps_non_blank [OF demo_raw_typed, of demo_rt]
  by (simp add: list_all_iff demo_raw_typed demo_raw_kept display_text_def paper_text_def field_text_def
      str_nat_digit)

subsection \<open>Similarity ranker\<close>

lemma recommend_loop_eq:
  "recommend_loop cands sims ixs acc =
     (if \<forall>i\<in>set ixs. i < length cands \<and> i < length sims
      then Inr (acc @ map (\<lambda>i. recommend (cands ! i) (sims ! i)) ixs)
      else Inl IndexError)"
  by (induction ixs arbitrary: acc) auto

lemma arr_size_rect:
  "\<forall>row\<in>set a. length row = d \<Longrightarrow> arr_size a = length a * d"
  by (induction a) (simp_all add: arr_size_def)

lemma similarity_eq:
  assumes "embedder_ok rt" "0 < dimensions rt" "length p = dimensions rt"
  shows "similarity rt texts p = Inr (map (\<lambda>row. dot row p) (Encode rt texts))"
    and "length (Encode rt texts) = length texts"
proof -
  let ?E = "Encode rt texts"
  show len: "length ?E = length texts"
    using assms(1) by (simp add: embedder_ok_def)
  have rows: "\<forall>row\<in>set ?E. length row = dimensions rt"
    using assms(1) by (simp add: embedder_ok_def)
  have sz: "arr_size ?E = length texts * dimensions rt"
    using arr_size_rect [OF rows] len by simp
  show "similarity rt texts p = Inr (map (\<lambda>row. dot row p) ?E)"
  proof (cases "texts = []")
    case True
    then show ?thesis using sz len by (simp add: similarity_def)
  next
    case False
    then have "arr_size ?E \<noteq> 0" using sz assms(2) by simp
    moreover have "list_all (\<lambda>row. length row = length p) ?E"
      using rows assms(3) by (simp add: list_all_iff)
    ultimately show ?thesis
      by (simp add: similarity_def matmul_T_def)
  qed
qed

lemma rank_order_props:
  assumes "argsort_ok rt" "0 \<le> TOP_K rt"
  shows "length (rank_order rt sims) = min (nat (TOP_K rt)) (length sims)"
    and "\<forall>i\<in>set (rank_order rt sims). i < length sims"
    and "sorted (rev (map (\<lambda>i. sims ! i) (rank_order rt sims)))"
proof -
  let ?a = "argsort rt sims"
  have a: "length ?a = length sims" "set ?a = {..<length sims}"
    "sorted (map (\<lambda>i. sims ! i) ?a)"
    using assms(1) by (simp_all add: argsort_ok_def)
  have ro: "rank_order rt sims = take (nat (TOP_K rt)) (rev ?a)"
    using assms(2) by (simp add: rank_order_def slice_to_def)
  show "length (rank_order rt sims) = min (nat (TOP_K rt)) (length sims)"
    by (simp add: ro a(1))
  show "\<forall>i\<in>set (rank_order rt sims). i < length sims"
    using a(2) set_take_subset [of "nat (TOP_K rt)" "rev ?a"] by (auto simp: ro)
  let ?L = "take (nat (TOP_K rt)) (rev (map (\<lambda>i. sims ! i) ?a))"
  have "sorted_wrt (\<lambda>x y. y \<le> x) (rev (map (\<lambda>i. sims ! i) ?a))"
    using a(3) by (simp add: sorted_wrt_rev)
  then have "sorted_wrt (\<lambda>x y. y \<le> x) ?L"
    by (rule sorted_wrt_take)
  then have "sorted (rev ?L)"
    by (simp add: sorted_wrt_rev)
  moreover have "map (\<lambda>i. sims ! i) (rank_order rt sims) = ?L"
    by (simp add: ro take_map rev_map)
  ultimately show "sorted (rev (map (\<lambda>i. sims ! i) (rank_order rt sims)))"
    by simp
qed

lemma rank_order_selects:
  assumes "argsort_ok rt" "0 \<le> TOP_K rt"
  shows "distinct (rank_order rt sims)"
    and "length sims \<le> nat (TOP_K rt) \<Longrightarrow> set (rank_order rt sims) = {..<length sims}"
    and "\<forall>i\<in>set (rank_order rt sims). \<forall>j<length sims.
           j \<notin> set (rank_order rt sims) \<longrightarrow> sims ! j \<le> sims ! i"
proof -
  let ?a = "argsort rt sims"
  let ?k = "nat (TOP_K rt)"
  have a: "length ?a = length sims" "set ?a = {..<length sims}"
    "sorted (map (\<lambda>i. sims ! i) ?a)"
    using assms(1) by (simp_all add: argsort_ok_def)
  have ro: "rank_order rt sims = take ?k (rev ?a)"
    using assms(2) by (simp add: rank_order_def slice_to_def)
  have "card (set ?a) = length ?a"
    by (simp add: a(1,2))
  then have d: "distinct ?a"
    by (rule card_distinct)
  then show "distinct (rank_order rt sims)"
    by (simp add: ro)
  show "set (rank_order rt sims) = {..<length sims}" if "length sims \<le> ?k"
    using that by (simp add: ro a(1,2))
  have desc: "sorted_wrt (\<lambda>x y. sims ! y \<le> sims ! x) (rev ?a)"
    using a(3) by (simp add: sorted_wrt_rev sorted_map)
  have split: "rev ?a = take ?k (rev ?a) @ drop ?k (rev ?a)"
    by simp
  have cross: "\<forall>x\<in>set (take ?k (rev ?a)). \<forall>y\<in>set (drop ?k (rev ?a)). sims ! y \<le> sims ! x"
    using desc by (subst (asm) split) (simp only: sorted_wrt_append, blast)
  show "\<forall>i\<in>set (rank_order rt sims). \<forall>j<length sims.
           j \<notin> set (rank_order rt sims) \<longrightarrow> sims ! j \<le> sims ! i"
  proof (intro ballI allI impI)
    fix i j
    assume i: "i \<in> set (rank_order rt sims)" and j: "j < length sims"
      and nj: "j \<notin> set (rank_order rt sims)"
    have "j \<in> set (rev ?a)" using j a(2) by simp
    then have "j \<in> set (take ?k (rev ?a)) \<union> set (drop ?k (rev ?a))"
      by (subst (asm) split) (simp only: set_append)
    then have "j \<in> set (drop ?k (rev ?a))"
      using nj by (simp add: ro)
    then show "sims ! j \<le> sims ! i"
      using cross i by (simp add: ro)
  qed
qed

text \<open>
  C1: with an embedder that returns an \<open>(N, D)\<close> array, \<open>D > 0\<close>, an \<open>argsort\<close> that meets
  NumPy's contract and a count \<open>TOP_K \<ge> 0\<close>, the ranker returns (does not raise)
  \<open>min(K, candidateCount)\<close> recommendations. The \<open>j\<close>-th one is made from the candidate
  at index \<open>ro ! j\<close>, where \<open>ro\<close> lists distinct candidate indices: it carries the
  candidate's fields, and its \<open>Similarity\<close> is that candidate's score, the dot product of
  its embedding with the persona vector. The scores of the recommendations are in
  descending order, no candidate left out scores higher than a selected one, and for
  \<open>K\<close> at or above the candidate count every candidate is selected, once.
\<close>

theorem rank_top_k_sorted:
  fixes sims :: "real list" and ro :: "nat list"
  assumes "embedder_ok rt" and "0 < dimensions rt" and "argsort_ok rt" and "0 \<le> TOP_K rt"
    and "length paperTexts = length paperCandidates"
    and "length personasVecs = dimensions rt"
  defines "sims \<equiv> map (\<lambda>row. dot row personasVecs) (Encode rt paperTexts)"
  defines "ro \<equiv> rank_order rt sims"
  shows "\<exists>recs.
           rank rt paperTexts paperCandidates personasVecs = Inr recs \<and>
           length recs = min (nat (TOP_K rt)) (length paperCandidates) \<and>
           length ro = length recs \<and> distinct ro \<and>
           (\<forall>j<length recs.
              ro ! j < length paperCandidates \<and>
              similarity_of (recs ! j) = Some (sims ! (ro ! j)) \<and>
              (\<forall>k. k \<noteq> ''Similarity'' \<longrightarrow> k \<noteq> ''abstract'' \<longrightarrow>
                 map_of (recs ! j) k = map_of (paperCandidates ! (ro ! j)) k)) \<and>
           sorted (rev (map (\<lambda>i. sims ! i) ro)) \<and>
           (\<forall>i\<in>set ro. \<forall>j<length paperCandidates. j \<notin> set ro \<longrightarrow> sims ! j \<le> sims ! i) \<and>
           (length paperCandidates \<le> nat (TOP_K rt) \<longrightarrow> set ro = {..<length paperCandidates})"
proof -
  have sim: "similarity rt paperTexts personasVecs = Inr sims"
    and len: "length sims = length paperCandidates"
    using similarity_eq [OF assms(1,2,6), of paperTexts] assms(5) by (simp_all add: sims_def)
  let ?recs = "map (\<lambda>i. recommend (paperCandidates ! i) (sims ! i)) ro"
  have inr: "\<forall>i\<in>set ro. i < length sims"
    unfolding ro_def by (rule rank_order_props(2) [OF assms(3,4)])
  have r: "rank rt paperTexts paperCandidates personasVecs = Inr ?recs"
    using inr sim len by (simp add: rank_def recommend_loop_eq ro_def)
  have l: "length ro = min (nat (TOP_K rt)) (length paperCandidates)"
    using rank_order_props(1) [OF assms(3,4), of sims] len by (simp add: ro_def)
  have each: "ro ! j < length paperCandidates \<and>
      similarity_of (?recs ! j) = Some (sims ! (ro ! j)) \<and>
      (\<forall>k. k \<noteq> ''Similarity'' \<longrightarrow> k \<noteq> ''abstract'' \<longrightarrow>
         map_of (?recs ! j) k = map_of (paperCandidates ! (ro ! j)) k)"
    if "j < length ?recs" for j
  proof -
    have j: "j < length ro" using that by simp
    then have "ro ! j \<in> set ro" by simp
    then have "ro ! j < length paperCandidates" using inr len by auto
    then show ?thesis
      using j by (simp add: similarity_of_recommend map_of_recommend)
  qed
  have s: "sorted (rev (map (\<lambda>i. sims ! i) ro))"
    unfolding ro_def by (rule rank_order_props(3) [OF assms(3,4)])
  have d: "distinct ro"
    unfolding ro_def by (rule rank_order_selects(1) [OF assms(3,4)])
  have top: "\<forall>i\<in>set ro. \<forall>j<length paperCandidates. j \<notin> set ro \<longrightarrow> sims ! j \<le> sims ! i"
    using rank_order_selects(3) [OF assms(3,4), of sims] by (simp add: ro_def len)
  have all: "length paperCandidates \<le> nat (TOP_K rt) \<longrightarrow> set ro = {..<length paperCandidates}"
    using rank_order_selects(2) [OF assms(3,4), of sims] by (simp add: ro_def len)
  show ?thesis
  proof (intro exI conjI)
    show "rank rt paperTexts paperCandidates personasVecs = Inr ?recs"
      by (rule r)
    show "length ?recs = min (nat (TOP_K rt)) (length paperCandidates)"
      using l by simp
    show "length ro = length ?recs"
      by simp
    show "distinct ro"
      by (rule d)
    show "\<forall>j<length ?recs.
            ro ! j < length paperCandidates \<and>
            similarity_of (?recs ! j) = Some (sims ! (ro ! j)) \<and>
            (\<forall>k. k \<noteq> ''Similarity'' \<longrightarrow> k \<noteq> ''abstract'' \<longrightarrow>
               map_of (?recs ! j) k = map_of (paperCandidates ! (ro ! j)) k)"
      using each by blast
    show "sorted (rev (map (\<lambda>i. sims ! i) ro))"
      by (rule s)
    show "\<forall>i\<in>set ro. \<forall>j<length paperCandidates. j \<notin> set ro \<longrightarrow> sims ! j \<le> sims ! i"
      by (rule top)
    show "length paperCandidates \<le> nat (TOP_K rt) \<longrightarrow> set ro = {..<length paperCandidates}"
      by (rule all)
  qed
qed


lemma demo_scores: "map (\<lambda>row. dot row [1, 0]) (Encode demo_rt demo_texts) = [1, 3, 2]"
  by (simp add: demo_rt_fields length_embedder_def demo_texts_def dot_def)

lemma demo_rank_order: "rank_order demo_rt [1, 3, 2] = [1, 2]"
  by (simp add: rank_order_def slice_to_def demo_rt_fields argsort_stable_def)

theorem rank_top_k_sorted_witness:
  "embedder_ok demo_rt \<and> 0 < dimensions demo_rt \<and> argsort_ok demo_rt \<and>
   0 \<le> TOP_K demo_rt \<and> length demo_texts = length demo_candidates \<and>
   length [1, 0 :: real] = dimensions demo_rt \<and>
   map (\<lambda>row. dot row [1, 0]) (Encode demo_rt demo_texts) = [1, 3, 2] \<and>
   rank_order demo_rt [1, 3, 2] = [1, 2] \<and>
   (\<exists>recs.
      rank demo_rt demo_texts demo_candidates [1, 0] = Inr recs \<and> length recs = 2 \<and>
      similarity_of (recs ! 0) = Some 3 \<and> similarity_of (recs ! 1) = Some 2 \<and>
      map_of (recs ! 0) ''title'' = map_of (demo_candidates ! 1) ''title'')"
proof -
  have d: "0 < dimensions demo_rt" and k: "0 \<le> TOP_K demo_rt"
    and p: "length [1, 0 :: real] = dimensions demo_rt"
    by (simp_all add: demo_rt_fields)
  have l: "length demo_texts = length demo_candidates"
    by (simp add: demo_texts_def demo_candidates_def)
  from rank_top_k_sorted [OF demo_embedder_ok d demo_argsort_ok k l p]
  obtain recs where r: "rank demo_rt demo_texts demo_candidates [1, 0] = Inr recs"
    and n: "length recs = min (nat (TOP_K demo_rt)) (length demo_candidates)"
    and e: "\<forall>j<length recs.
              rank_order demo_rt [1, 3, 2] ! j < length demo_candidates \<and>
              similarity_of (recs ! j) = Some ([1, 3, 2] ! (rank_order demo_rt [1, 3, 2] ! j)) \<and>
              (\<forall>k. k \<noteq> ''Similarity'' \<longrightarrow> k \<noteq> ''abstract'' \<longrightarrow>
                 map_of (recs ! j) k =
                 map_of (demo_candidates ! (rank_order demo_rt [1, 3, 2] ! j)) k)"
    unfolding demo_scores by blast
  have n2: "length recs = 2"
    using n by (simp add: demo_rt_fields demo_candidates_def)
  have "similarity_of (recs ! 0) = Some 3" "similarity_of (recs ! 1) = Some 2"
    "map_of (recs ! 0) ''title'' = map_of (demo_candidates ! 1) ''title''"
    using e [rule_format, of 0] e [rule_format, of 1] n2 by (simp_all add: demo_rank_order)
  with r n2 show ?thesis
    using demo_embedder_ok demo_argsort_ok d k l p demo_scores demo_rank_order by blast
qed

subsection \<open>Profile vectoriser\<close>

lemma encode_empty:
  assumes "embedder_ok rt"
  shows "Encode rt [] = []"
proof -
  have "length (Encode rt []) = length ([] :: pystr list)"
    using assms unfolding embedder_ok_def by blast
  then show ?thesis by simp
qed

lemma length_mean_axis0: "length (mean_axis0 a) = length (hd a)"
  by (simp add: mean_axis0_def)

lemma persona_vector_length:
  assumes "embedder_ok rt"
  shows "length (persona_vector rt personasTexts) = dimensions rt"
proof (cases "arr_size (Encode rt personasTexts) = 0")
  case True
  then show ?thesis by (simp add: persona_vector_def)
next
  case False
  then have "Encode rt personasTexts \<noteq> []"
    by (auto simp: arr_size_def)
  then have "hd (Encode rt personasTexts) \<in> set (Encode rt personasTexts)"
    by simp
  then have "length (hd (Encode rt personasTexts)) = dimensions rt"
    using assms by (simp add: embedder_ok_def)
  with False show ?thesis
    by (simp add: persona_vector_def Let_def length_mean_axis0)
qed

text \<open>
  C5: with an embedder of fixed dimensionality, the persona vector of the empty profile
  is the zero vector of that dimensionality, and the persona vector of any profile has
  that dimensionality.
\<close>

theorem persona_vector_dimension:
  assumes "embedder_ok rt"
  shows "persona_vector rt [] = replicate (dimensions rt) 0 \<and>
         length (persona_vector rt personasTexts) = dimensions rt"
  using assms persona_vector_length [OF assms]
  by (simp add: persona_vector_def encode_empty arr_size_def)

theorem persona_vector_dimension_witness:
  "embedder_ok parity_rt \<and> persona_vector parity_rt [] = [0, 0] \<and>
   length (persona_vector parity_rt opposite_texts) = 2"
  using persona_vector_dimension [OF parity_embedder_ok, of opposite_texts]
  by (simp add: parity_embedder_ok parity_rt_fields numeral_2_eq_2)

lemma sum_squares_scale:
  fixes c :: real
  shows "sum_list (map (\<lambda>x. x * x) (map (\<lambda>x. x / c) v)) = sum_list (map (\<lambda>x. x * x) v) / (c * c)"
  by (induction v) (simp_all add: add_divide_distrib)

lemma linalg_norm_scale:
  assumes "0 < c"
  shows "linalg_norm (map (\<lambda>x. x / c) v) = linalg_norm v / c"
proof -
  have "sqrt (sum_list (map (\<lambda>x. x * x) v) / (c * c)) =
        sqrt (sum_list (map (\<lambda>x. x * x) v)) / sqrt (c * c)"
    by (rule real_sqrt_divide)
  moreover have "sqrt (c * c) = c"
    using assms by simp
  ultimately show ?thesis
    by (simp only: linalg_norm_def sum_squares_scale)
qed

lemma linalg_norm_nonneg: "0 \<le> linalg_norm v"
proof -
  have "0 \<le> sum_list (map (\<lambda>x. x * x) v)"
    by (induction v) simp_all
  then show ?thesis by (simp add: linalg_norm_def)
qed

lemma arr_size_nonempty:
  assumes "embedder_ok rt" "0 < dimensions rt" "texts \<noteq> []"
  shows "arr_size (Encode rt texts) \<noteq> 0"
proof -
  have "arr_size (Encode rt texts) = length (Encode rt texts) * dimensions rt"
    using assms(1) by (intro arr_size_rect) (simp add: embedder_ok_def)
  then show ?thesis
    using assms by (simp add: embedder_ok_def)
qed

lemma near_one_iff:
  fixes n :: real
  assumes "0 \<le> n"
  shows "\<bar>n / (n + 1 / 1000000000) - 1\<bar> \<le> 1 / 1000000 \<longleftrightarrow> 999999 / 1000000000 \<le> n"
proof -
  have pos: "0 < n + 1 / 1000000000" using assms by simp
  have "n / (n + 1 / 1000000000) - 1 = - (1 / 1000000000) / (n + 1 / 1000000000)"
    using pos by (simp add: field_simps)
  then have "\<bar>n / (n + 1 / 1000000000) - 1\<bar> = (1 / 1000000000) / (n + 1 / 1000000000)"
    using pos by simp
  also have "\<dots> \<le> 1 / 1000000 \<longleftrightarrow> 999999 / 1000000000 \<le> n"
    using pos by (simp add: field_simps)
  finally show ?thesis .
qed

text \<open>
  C6 (amended): for a non-empty profile, in exact arithmetic, the norm of the persona
  vector is \<open>n / (n + 1e-9)\<close>, where \<open>n\<close> is the norm of the mean embedding. It is
  within \<open>1e-6\<close> of 1 exactly when \<open>n \<ge> 0.000999999\<close>; for a mean of norm 0 the persona
  vector is the zero vector.
\<close>

theorem persona_vector_norm:
  assumes "embedder_ok rt" and "0 < dimensions rt" and "personasTexts \<noteq> []"
  shows "linalg_norm (persona_vector rt personasTexts) =
           linalg_norm (mean_axis0 (Encode rt personasTexts)) /
             (linalg_norm (mean_axis0 (Encode rt personasTexts)) + 1 / 1000000000) \<and>
         (\<bar>linalg_norm (persona_vector rt personasTexts) - 1\<bar> \<le> 1 / 1000000 \<longleftrightarrow>
          999999 / 1000000000 \<le> linalg_norm (mean_axis0 (Encode rt personasTexts)))"
proof -
  let ?m = "mean_axis0 (Encode rt personasTexts)"
  have pv: "persona_vector rt personasTexts =
              map (\<lambda>x. x / (linalg_norm ?m + 1 / 1000000000)) ?m"
    using arr_size_nonempty [OF assms] by (simp add: persona_vector_def Let_def)
  have pos: "0 < linalg_norm ?m + 1 / 1000000000"
    using linalg_norm_nonneg [of ?m] by simp
  have n: "linalg_norm (persona_vector rt personasTexts) =
             linalg_norm ?m / (linalg_norm ?m + 1 / 1000000000)"
    by (simp only: pv linalg_norm_scale [OF pos])
  show ?thesis
    using near_one_iff [OF linalg_norm_nonneg, of ?m] n by simp
qed

text \<open>
  Two profile texts embedded as opposite unit vectors have mean 0: the persona vector is
  \<open>0 / (0 + 1e-9) = 0\<close> in every coordinate, of norm 0. Every number in this run is
  exact in float32 as well.
\<close>

lemma opposite_mean: "mean_axis0 (Encode parity_rt opposite_texts) = [0, 0]"
  by (simp add: parity_rt_fields parity_embedder_def opposite_texts_def mean_axis0_def)

lemma opposite_persona: "persona_vector parity_rt opposite_texts = [0, 0]"
  by (simp add: persona_vector_def Let_def opposite_mean linalg_norm_def)
     (simp add: parity_rt_fields parity_embedder_def opposite_texts_def arr_size_def)

theorem persona_vector_norm_counterexample:
  "\<not> \<bar>linalg_norm (persona_vector parity_rt opposite_texts) - 1\<bar> \<le> 1 / 1000000"
  by (simp add: opposite_persona linalg_norm_def)

lemma even_mean: "mean_axis0 (Encode parity_rt even_texts) = [1, 0]"
  by (simp add: parity_rt_fields parity_embedder_def even_texts_def mean_axis0_def)

theorem persona_vector_norm_witness:
  "embedder_ok parity_rt \<and> 0 < dimensions parity_rt \<and> even_texts \<noteq> [] \<and>
   linalg_norm (persona_vector parity_rt even_texts) = 1 / (1 + 1 / 1000000000) \<and>
   \<bar>linalg_norm (persona_vector parity_rt even_texts) - 1\<bar> \<le> 1 / 1000000"
proof -
  have d: "0 < dimensions parity_rt" by (simp add: parity_rt_fields)
  have t: "even_texts \<noteq> []" by (simp add: even_texts_def)
  have n: "linalg_norm (mean_axis0 (Encode parity_rt even_texts)) = 1"
    by (simp add: even_mean linalg_norm_def)
  from persona_vector_norm [OF parity_embedder_ok d t]
  show ?thesis
    using parity_embedder_ok d t by (simp add: n)
qed

subsection \<open>Empty candidate set\<close>

lemma argsort_empty:
  assumes "argsort_ok rt"
  shows "argsort rt [] = []"
proof -
  have "length (argsort rt []) = length ([] :: real list)"
    using assms unfolding argsort_ok_def by blast
  then show ?thesis by simp
qed

text \<open>
  C7: for the empty candidate set the similarity computation takes the branch for an
  array of size 0 and yields the empty vector, whatever the shape of the persona vector;
  the ranker returns the empty list of recommendations and raises nothing, and so does
  the whole run on an empty raw data set.
\<close>

theorem rank_empty:
  assumes "embedder_ok rt" and "argsort_ok rt"
  shows "similarity rt [] personasVecs = Inr [] \<and>
         rank rt [] [] personasVecs = Inr [] \<and>
         Run rt personasTexts [] = Inr []"
proof -
  have s: "similarity rt [] personasVecs = Inr []" for personasVecs
    by (simp add: similarity_def encode_empty [OF assms(1)] arr_size_def)
  have o: "rank_order rt [] = []"
    by (simp add: rank_order_def slice_to_def argsort_empty [OF assms(2)])
  have r: "rank rt [] [] personasVecs = Inr []" for personasVecs
    by (simp add: rank_def s o)
  show ?thesis
    by (simp add: s r Run_def candidate_filter_def)
qed

theorem rank_empty_witness:
  "embedder_ok demo_rt \<and> argsort_ok demo_rt \<and>
   similarity demo_rt [] [1, 0, 0] = Inr [] \<and> rank demo_rt [] [] [1, 0, 0] = Inr [] \<and>
   Run demo_rt opposite_texts [] = Inr []"
  using rank_empty [OF demo_embedder_ok demo_argsort_ok, of "[1, 0, 0]" opposite_texts]
    demo_embedder_ok demo_argsort_ok
  by blast

subsection \<open>Recommendations\<close>

lemma rank_Inr:
  assumes "similarity rt paperTexts personasVecs = Inr sims"
    and "rank rt paperTexts paperCandidates personasVecs = Inr recs"
  shows "recs = map (\<lambda>i. recommend (paperCandidates ! i) (sims ! i)) (rank_order rt sims)"
    and "\<forall>i\<in>set (rank_order rt sims). i < length paperCandidates \<and> i < length sims"
  using assms by (auto simp: rank_def recommend_loop_eq split: if_splits)

lemma rank_Inr_nth:
  assumes "similarity rt paperTexts personasVecs = Inr sims"
    and "rank rt paperTexts paperCandidates personasVecs = Inr recs"
    and "j < length recs"
  shows "rank_order rt sims ! j < length paperCandidates"
    and "recs ! j = recommend (paperCandidates ! (rank_order rt sims ! j))
                      (sims ! (rank_order rt sims ! j))"
proof -
  note r = rank_Inr [OF assms(1,2)]
  have j: "j < length (rank_order rt sims)"
    using assms(3) r(1) by simp
  then have "rank_order rt sims ! j \<in> set (rank_order rt sims)"
    by simp
  then show "rank_order rt sims ! j < length paperCandidates"
    using r(2) by blast
  show "recs ! j = recommend (paperCandidates ! (rank_order rt sims ! j))
                      (sims ! (rank_order rt sims ! j))"
    using j by (simp add: r(1))
qed

text \<open>
  C3 (amended): the \<open>j\<close>-th recommendation comes from the candidate at index
  \<open>rank_order ! j\<close>. Its \<open>Similarity\<close> is the score of that candidate, also when the
  candidate had a field of that name. Every other key reads as in the candidate, except
  that \<open>abstract\<close> is bound to the empty string when the candidate has no such key: no
  other key is added, and no other value is changed.
\<close>

theorem recommendation_fields:
  assumes "similarity rt paperTexts personasVecs = Inr sims"
    and "rank rt paperTexts paperCandidates personasVecs = Inr recs"
    and "j < length recs"
  shows "rank_order rt sims ! j < length paperCandidates \<and>
         map_of (recs ! j) ''Similarity'' = Some (PFloat (sims ! (rank_order rt sims ! j))) \<and>
         (\<forall>k. k \<noteq> ''Similarity'' \<longrightarrow>
            map_of (recs ! j) k =
              (if k = ''abstract'' \<and> map_of (paperCandidates ! (rank_order rt sims ! j)) k = None
               then Some (PStr [])
               else map_of (paperCandidates ! (rank_order rt sims ! j)) k))"
  using rank_Inr_nth [OF assms]
  by (auto simp: map_of_recommend split: option.splits)

text \<open>
  C10: every recommendation has an \<open>abstract\<close> key. It is bound to the candidate's own
  value when the candidate has the key, and to the empty string otherwise.
\<close>

theorem recommendation_has_abstract:
  assumes "similarity rt paperTexts personasVecs = Inr sims"
    and "rank rt paperTexts paperCandidates personasVecs = Inr recs"
    and "j < length recs"
  shows "rank_order rt sims ! j < length paperCandidates \<and>
         map_of (recs ! j) ''abstract'' =
           Some (dict_get (paperCandidates ! (rank_order rt sims ! j)) ''abstract'' (PStr []))"
  using rank_Inr_nth [OF assms]
  by (auto simp: map_of_recommend dict_get_def split: option.splits)

lemma demo_similarity: "similarity demo_rt demo_texts [1, 0] = Inr [1, 3, 2]"
  by (simp add: similarity_def demo_rt_fields length_embedder_def demo_texts_def arr_size_def
      matmul_T_def dot_def)

lemma demo_rank:
  "rank demo_rt demo_texts demo_candidates [1, 0] =
     Inr [[(''title'', PStr [66]), (''Similarity'', PFloat 3), (''abstract'', PStr [])],
          [(''abstract'', PNone), (''Similarity'', PFloat 2)]]"
  by (simp add: rank_def demo_similarity demo_rank_order demo_candidates_def recommend_def
      dict_setdefault_def dict_get_def)

theorem recommendation_fields_witness:
  "similarity demo_rt demo_texts [1, 0] = Inr [1, 3, 2] \<and>
   rank demo_rt demo_texts demo_candidates [1, 0] =
     Inr [[(''title'', PStr [66]), (''Similarity'', PFloat 3), (''abstract'', PStr [])],
          [(''abstract'', PNone), (''Similarity'', PFloat 2)]] \<and>
   rank_order demo_rt [1, 3, 2] ! 0 < length demo_candidates \<and>
   map_of (demo_candidates ! (rank_order demo_rt [1, 3, 2] ! 0)) ''title'' = Some (PStr [66])"
proof -
  note th = recommendation_fields [OF demo_similarity demo_rank, of 0]
  have j: "0 < length [[(''title'', PStr [66]), (''Similarity'', PFloat 3), (''abstract'', PStr [])],
          [(''abstract'', PNone), (''Similarity'', PFloat 2)]]"
    by simp
  have "rank_order demo_rt [1, 3, 2] ! 0 < length demo_candidates"
    using th [OF j] by blast
  moreover have "map_of (demo_candidates ! (rank_order demo_rt [1, 3, 2] ! 0)) ''title'' =
      Some (PStr [66])"
    using th [OF j, THEN conjunct2, THEN conjunct2, rule_format, of "''title''"] by simp
  ultimately show ?thesis
    by (simp add: demo_similarity demo_rank)
qed

theorem recommendation_has_abstract_witness:
  "similarity demo_rt demo_texts [1, 0] = Inr [1, 3, 2] \<and>
   rank demo_rt demo_texts demo_candidates [1, 0] =
     Inr [[(''title'', PStr [66]), (''Similarity'', PFloat 3), (''abstract'', PStr [])],
          [(''abstract'', PNone), (''Similarity'', PFloat 2)]] \<and>
   dict_get (demo_candidates ! (rank_order demo_rt [1, 3, 2] ! 1)) ''abstract'' (PStr []) = PNone \<and>
   dict_get (demo_candidates ! (rank_order demo_rt [1, 3, 2] ! 0)) ''abstract'' (PStr []) = PStr []"
  using recommendation_has_abstract [OF demo_similarity demo_rank, of 0]
    recommendation_has_abstract [OF demo_similarity demo_rank, of 1]
  by (simp add: demo_similarity demo_rank)

lemma demo_empty_profile: "persona_vector demo_rt [] = [0, 0]"
  by (simp add: persona_vector_def demo_rt_fields length_embedder_def arr_size_def
      numeral_2_eq_2)

lemma demo_zero_similarity: "similarity demo_rt texts [0, 0] = Inr (map (\<lambda>t. 0) texts)"
  by (cases texts)
     (simp_all add: similarity_def demo_rt_fields length_embedder_def arr_size_def
        matmul_T_def dot_def list_all_iff)

text \<open>
  A candidate with a field \<open>Similarity\<close> and no \<open>abstract\<close>: the score replaces the
  value of \<open>Similarity\<close>, and \<open>abstract\<close> is added.
\<close>

theorem overwrite_counterexample:
  "Run demo_rt [] [scored_candidate] =
     Inr [[(''title'', PStr [65]), (''Similarity'', PFloat 0), (''abstract'', PStr [])]]"
  by (simp add: Run_def demo_empty_profile candidate_filter_def scored_candidate_def
      filter_step.simps dict_get_def py_or_def both_blank_def strip_def isspace_def
      rank_def demo_zero_similarity demo_rt_fields rank_order_def slice_to_def argsort_stable_def recommend_def
      dict_setdefault_def Let_def)

text \<open>
  With an empty profile every score is 0. Under a stable index sort the two candidates
  come out in the reverse of their aggregation order.
\<close>

theorem ties_counterexample:
  "Run demo_rt [] two_titles =
     Inr [[(''title'', PStr [66]), (''Similarity'', PFloat 0), (''abstract'', PStr [])],
          [(''title'', PStr [65]), (''Similarity'', PFloat 0), (''abstract'', PStr [])]]"
  by (simp add: Run_def demo_empty_profile candidate_filter_def two_titles_def
      filter_step.simps dict_get_def py_or_def both_blank_def strip_def isspace_def
      rank_def demo_zero_similarity demo_rt_fields rank_order_def slice_to_def argsort_stable_def recommend_def
      dict_setdefault_def Let_def)

subsection \<open>Ties\<close>

lemma sorted_wrt_by_key:
  assumes "\<And>k. sorted_wrt R (filter (\<lambda>y. f y = k) ys)"
  shows "sorted_wrt (\<lambda>a b. f a = f b \<longrightarrow> R a b) ys"
  using assms
proof (induction ys)
  case Nil
  then show ?case by simp
next
  case (Cons y ys)
  have tail: "sorted_wrt R (filter (\<lambda>z. f z = k) ys)" for k
    using Cons.prems [of k] by (cases "f y = k") simp_all
  have "R y z" if "z \<in> set ys" "f y = f z" for z
    using Cons.prems [of "f y"] that by simp
  with Cons.IH [OF tail] show ?case
    by simp
qed

lemma stable_sort_ties:
  fixes xs :: "real list"
  shows "sorted_wrt (\<lambda>a b. fst a = fst b \<longrightarrow> snd a < snd b)
     (sort_key fst (zip xs [0..<length xs]))"
proof (rule sorted_wrt_by_key)
  fix k :: real
  let ?zs = "zip xs [0..<length xs]"
  have "sorted_wrt (<) (map snd ?zs)"
    by (simp add: sorted_wrt_upt)
  then have "sorted_wrt (\<lambda>a b. snd a < snd b) ?zs"
    by (simp only: sorted_wrt_map)
  then have "sorted_wrt (\<lambda>a b. snd a < snd b) (filter (\<lambda>y. fst y = k) ?zs)"
    by (rule sorted_wrt_filter)
  then show "sorted_wrt (\<lambda>a b. snd a < snd b) (filter (\<lambda>y. fst y = k) (sort_key fst ?zs))"
    by (simp only: sort_key_stable)
qed

lemma argsort_stable_ties:
  "sorted_wrt (\<lambda>i j. xs ! i = xs ! j \<longrightarrow> i < j) (argsort_stable xs)"
proof -
  let ?ys = "sort_key fst (zip xs [0..<length xs])"
  have val: "xs ! snd z = fst z" if "z \<in> set ?ys" for z
    using that by (auto simp: set_zip)
  have "sorted_wrt (\<lambda>a b. xs ! snd a = xs ! snd b \<longrightarrow> snd a < snd b) ?ys"
    using stable_sort_ties [of xs]
    by (rule sorted_wrt_mono_rel [rotated]) (simp add: val)
  then show ?thesis
    by (simp add: argsort_stable_def sorted_wrt_map)
qed

text \<open>
  C2 (amended): when the index sort is stable, two selected candidates with equal
  similarity scores appear in the reverse of their aggregation order, because the
  ascending order of \<open>argsort\<close> is reversed as a whole.
\<close>

theorem ties_in_reverse_order:
  assumes "argsort rt = argsort_stable"
  shows "sorted_wrt (\<lambda>i j. sims ! i = sims ! j \<longrightarrow> j < i) (rank_order rt sims)"
proof -
  have "sorted_wrt (\<lambda>i j. sims ! j = sims ! i \<longrightarrow> j < i) (rev (argsort_stable sims))"
    using argsort_stable_ties [of sims] by (simp add: sorted_wrt_rev)
  then have r: "sorted_wrt (\<lambda>i j. sims ! i = sims ! j \<longrightarrow> j < i) (rev (argsort_stable sims))"
    by (rule sorted_wrt_mono_rel [rotated]) simp
  have "sorted_wrt (\<lambda>i j. sims ! i = sims ! j \<longrightarrow> j < i) (take m (rev (argsort_stable sims)))"
    for m
    using r by (rule sorted_wrt_take)
  then show ?thesis
    by (simp add: rank_order_def slice_to_def assms)
qed

theorem ties_in_reverse_order_witness:
  "argsort demo_rt = argsort_stable \<and> rank_order demo_rt [5, 5, 1] = [1, 0] \<and>
   sorted_wrt (\<lambda>i j. [5, 5, 1 :: real] ! i = [5, 5, 1] ! j \<longrightarrow> j < i)
     (rank_order demo_rt [5, 5, 1])"
  using ties_in_reverse_order [of demo_rt "[5, 5, 1]"]
  by (simp add: demo_rt_fields rank_order_def slice_to_def argsort_stable_def)

subsection \<open>Aggregator\<close>

text \<open>
  C8: the merged output is the output of the fetchers before a given fetcher, then that
  fetcher's own output in its own order, then the output of the fetchers after it; its
  length is the sum of the lengths, so nothing is dropped as a duplicate; and fetchers
  returning \<open>[x, y]\<close> and \<open>[z]\<close> merge to \<open>[x, y, z]\<close>.
\<close>

theorem fetch_all_concatenates:
  "fetch_all (before @ fetch # after) day nextDay opts =
     fetch_all before day nextDay opts @ fetch day nextDay opts @
     fetch_all after day nextDay opts \<and>
   length (fetch_all fetchers day nextDay opts) =
     sum_list (map (\<lambda>f. length (f day nextDay opts)) fetchers) \<and>
   fetch_all [\<lambda>d n c. [x, y], \<lambda>d n c. [z]] day nextDay opts = [x, y, z]"
  by (simp add: fetch_all_def length_concat comp_def)

subsection \<open>None and absent fields\<close>

lemma field_text_absent: "absent_or_none (map_of p k) \<Longrightarrow> field_text p k = []"
  by (cases "map_of p k" rule: absent_or_none.cases) (simp_all add: field_text_def)

text \<open>
  C9: on a record whose title and abstract are each absent, \<open>None\<close> or a string, the
  loop body does not raise, and its result is the one obtained by reading an absent or
  \<open>None\<close> field as the empty string. With both fields absent or \<open>None\<close> the record is
  dropped; with the abstract absent or \<open>None\<close> and a title that is not blank the record is
  kept, and its text block ends with an empty abstract.
\<close>

theorem none_fields_read_as_empty:
  assumes "well_typed p"
  shows "filter_step rt p (n, texts, cands) =
           (if blank p then Inr (n, texts, cands)
            else Inr (Suc n, texts @ [display_text rt (Suc n) p], cands @ [p])) \<and>
         (absent_or_none (map_of p ''title'') \<and> absent_or_none (map_of p ''abstract'') \<longrightarrow>
            filter_step rt p (n, texts, cands) = Inr (n, texts, cands)) \<and>
         (absent_or_none (map_of p ''abstract'') \<and> strip (field_text p ''title'') \<noteq> [] \<longrightarrow>
            filter_step rt p (n, texts, cands) =
              Inr (Suc n,
                   texts @ [paper_text rt (Suc n) (PStr (field_text p ''title'')) (PStr [])],
                   cands @ [p]))"
  by (simp add: filter_step_typed [OF assms] blank_def display_text_def field_text_absent
      strip_def)

theorem none_fields_read_as_empty_witness:
  "well_typed [(''title'', PStr [66]), (''abstract'', PNone)] \<and>
   absent_or_none (map_of [(''title'', PStr [66]), (''abstract'', PNone)] ''abstract'') \<and>
   filter_step demo_rt [(''title'', PStr [66]), (''abstract'', PNone)] (0, [], []) =
     Inr (1,
          [[35, 35, 32, 35770, 25991, 32, 49, 10, 45, 32, 26631, 39064, 65306, 66,
            10, 45, 32, 25688, 35201, 65306]],
          [[(''title'', PStr [66]), (''abstract'', PNone)]])"
  using none_fields_read_as_empty [of "[(''title'', PStr [66]), (''abstract'', PNone)]"
      demo_rt 0 "[]" "[]"]
  by (simp add: well_typed_def field_text_def strip_def isspace_def paper_text_def
      str_nat_digit blank_def display_text_def)

end
